theory Spec2Isabelle
  imports Main
begin

section \<open>Opening book converter (scripts/convert\_opening\_book.py)\<close>

text \<open>
  A shallow embedding of the class \<open>OpeningBookConverter\<close>. Python strings are
  \<open>string\<close> (one \<open>char\<close> per code point, so code points below 256), Python
  integers are \<open>int\<close>, a raised exception is the \<open>Inl\<close> branch of a sum, and a
  dictionary is an association list in insertion order.
\<close>

subsection \<open>Data classes\<close>

record JsonMove =
  from_pos :: string
  to_pos :: string
  promote :: bool
  piece_type :: string

text \<open>
  The input after \<open>json.load\<close>: a list of opening records, each with a name and a
  dictionary from position identifier to a list of move objects. A move object is a
  dictionary whose four keys may each be missing; a dictionary is held in insertion order.
\<close>

record MoveData =
  json_from :: "string option"
  json_to :: "string option"
  json_promote :: "bool option"
  json_pieceType :: "string option"

record JsonOpening =
  name :: string
  moves :: "(string \<times> MoveData list) list"

record ConvertedMove =
  from_row :: int
  from_col :: int
  to_row :: int
  to_col :: int
  piece_type :: string
  is_drop :: bool
  is_promotion :: bool
  weight :: int
  evaluation :: int
  opening_name :: string
  move_notation :: string

record ConvertedPosition =
  fen :: string
  moves :: "ConvertedMove list"

subsection \<open>Exceptions\<close>

text \<open>
  The converter raises \<open>ValueError\<close> itself (two messages) and through \<open>int()\<close>
  on a character that is not a decimal digit; indexing a string past its end raises
  \<open>IndexError\<close>.
\<close>

datatype value_error_msg =
    Invalid_coordinate_format string
  | Coordinate_out_of_bounds string
  | Invalid_literal_for_int string

datatype error = ValueError value_error_msg | IndexError

subsection \<open>Dictionaries and built-ins\<close>

text \<open>\<open>d.get(k, default)\<close> on a dictionary held as an association list.\<close>

definition dict_get :: "('k \<times> 'v) list \<Rightarrow> 'k \<Rightarrow> 'v \<Rightarrow> 'v" where
  "dict_get d k dflt = (case map_of d k of None \<Rightarrow> dflt | Some v \<Rightarrow> v)"

text \<open>
  \<open>int(c)\<close> for a one-character string \<open>c\<close>: among the code points below 256 only
  \<open>0\<close> .. \<open>9\<close> are decimal digits; every other character raises \<open>ValueError\<close>.
\<close>

definition py_int_char :: "char \<Rightarrow> error + int" where
  "py_int_char c =
     (if (48::nat) \<le> of_char c \<and> of_char c \<le> (57::nat)
      then Inr (int (of_char c) - 48)
      else Inl (ValueError (Invalid_literal_for_int [c])))"

text \<open>\<open>s[i]\<close> for a literal index \<open>i \<ge> 0\<close>.\<close>

definition py_index :: "string \<Rightarrow> nat \<Rightarrow> error + char" where
  "py_index s i = (if i < length s then Inr (s ! i) else Inl IndexError)"

text \<open>\<open>sub in s\<close> for strings: \<open>sub\<close> occurs in \<open>s\<close> as a contiguous substring.\<close>

fun starts_with :: "string \<Rightarrow> string \<Rightarrow> bool" where
  "starts_with [] s = True"
| "starts_with (x # xs) [] = False"
| "starts_with (x # xs) (c # cs) = (x = c \<and> starts_with xs cs)"

fun str_contains :: "string \<Rightarrow> string \<Rightarrow> bool" where
  "str_contains sub [] = starts_with sub []"
| "str_contains sub (c # cs) = (starts_with sub (c # cs) \<or> str_contains sub cs)"

subsection \<open>The tables of \<open>__init__\<close>\<close>

definition opening_weights :: "(string \<times> int) list" where
  "opening_weights =
     [(''Aggressive Rook'', 850),
      (''Yagura'', 800),
      (''Kakugawari (Bishop Exchange)'', 750),
      (''Shikenbisya (Fourth File Rook)'', 700),
      (''Aigakari (Double Wing Attack)'', 650),
      (''Side Pawn Picker (Yokofudori)'', 600)]"

definition evaluation_scores :: "(string \<times> int) list" where
  "evaluation_scores =
     [(''development'', 15),
      (''central_control'', 20),
      (''king_safety'', 25),
      (''tactical'', 30),
      (''positional'', 10),
      (''neutral'', 0)]"

subsection \<open>\<open>convert_coordinate\<close>\<close>

definition convert_coordinate :: "string \<Rightarrow> error + (int \<times> int)" where
  "convert_coordinate coord =
     (if length coord \<noteq> 2 then Inl (ValueError (Invalid_coordinate_format coord))
      else case py_int_char (coord ! 0) of
        Inl e \<Rightarrow> Inl e
      | Inr c \<Rightarrow>
         (let col = c - 1 in
          case py_int_char (coord ! 1) of
            Inl e \<Rightarrow> Inl e
          | Inr r \<Rightarrow>
             (let row = r - 1 in
              if \<not> (0 \<le> row \<and> row \<le> 8) \<or> \<not> (0 \<le> col \<and> col \<le> 8)
              then Inl (ValueError (Coordinate_out_of_bounds coord))
              else Inr (row, col))))"

subsection \<open>\<open>determine_piece_type\<close> and \<open>determine_move_type\<close>\<close>

definition determine_piece_type :: "JsonMove \<Rightarrow> string \<Rightarrow> string \<Rightarrow> string" where
  "determine_piece_type move fen_key opening =
     (if opening = ''Aggressive Rook'' then
        (if str_contains ''27'' (from_pos move) \<or> str_contains ''26'' (from_pos move)
            \<or> str_contains ''25'' (from_pos move)
         then ''Rook'' else ''Pawn'')
      else if opening = ''Yagura'' then
        (if str_contains ''77'' (from_pos move) \<or> str_contains ''76'' (from_pos move)
         then ''Pawn''
         else if str_contains ''69'' (from_pos move) \<or> str_contains ''78'' (to_pos move)
         then ''Gold'' else ''Pawn'')
      else if opening = ''Kakugawari (Bishop Exchange)'' then
        (if str_contains ''22'' (from_pos move) \<or> str_contains ''88'' (to_pos move)
         then ''Bishop'' else ''Pawn'')
      else ''Pawn'')"

definition determine_move_type :: "JsonMove \<Rightarrow> string \<Rightarrow> string" where
  "determine_move_type move opening =
     (if from_pos move = ''drop'' then ''tactical''
      else if promote move then ''tactical''
      else if to_pos move \<in> set [''44'', ''45'', ''54'', ''55''] then ''central_control''
      else if to_pos move \<in> set [''77'', ''78'', ''87'', ''88''] then ''king_safety''
      else if opening \<in> set [''Yagura'', ''Aggressive Rook''] then ''development''
      else ''positional'')"

subsection \<open>\<open>assign_weight\<close> and \<open>assign_evaluation\<close>\<close>

definition assign_weight :: "JsonMove \<Rightarrow> string \<Rightarrow> int" where
  "assign_weight move opening =
     (let base_weight = dict_get opening_weights opening 500;
          base_weight =
            (if promote move then base_weight + 100
             else if from_pos move = ''drop'' then base_weight + 50
             else base_weight);
          base_weight =
            (if opening = ''Aggressive Rook'' then
               (if from_pos move \<in> set [''27'', ''26'', ''25'']
                then base_weight + 50 else base_weight)
             else if opening = ''Yagura'' then
               (if from_pos move \<in> set [''77'', ''69'']
                then base_weight + 50 else base_weight)
             else base_weight)
      in min base_weight 1000)"

definition assign_evaluation :: "JsonMove \<Rightarrow> string \<Rightarrow> int" where
  "assign_evaluation move opening =
     (let move_type = determine_move_type move opening;
          base_eval = dict_get evaluation_scores move_type 0;
          base_eval =
            (if opening \<in> set [''Aggressive Rook'', ''Yagura''] then base_eval + 5
             else if opening \<in> set [''Kakugawari (Bishop Exchange)''] then base_eval + 10
             else base_eval);
          base_eval = (if promote move then base_eval + 15 else base_eval)
      in base_eval)"

subsection \<open>\<open>generate_move_notation\<close>\<close>

text \<open>\<open>str(n)\<close> for an integer \<open>n\<close>, as an f-string field prints it.\<close>

fun digits_of_nat :: "nat \<Rightarrow> string" where
  "digits_of_nat n =
     (if n < 10 then [''0123456789'' ! n]
      else digits_of_nat (n div 10) @ [''0123456789'' ! (n mod 10)])"

declare digits_of_nat.simps [simp del]

definition py_str :: "int \<Rightarrow> string" where
  "py_str i = (if i < 0 then CHR ''-'' # digits_of_nat (nat (- i)) else digits_of_nat (nat i))"

text \<open>
  The f-string \<open>f"{int(p[0])}{chr(ord('a') + int(p[1]) - 1)}"\<close> that the source writes
  three times, for a square \<open>p\<close>. The argument of \<open>chr\<close> is between 96 and 105.
\<close>

definition usi_coord :: "string \<Rightarrow> error + string" where
  "usi_coord p =
     (case py_index p 0 of Inl e \<Rightarrow> Inl e | Inr c0 \<Rightarrow>
      case py_int_char c0 of Inl e \<Rightarrow> Inl e | Inr d0 \<Rightarrow>
      case py_index p 1 of Inl e \<Rightarrow> Inl e | Inr c1 \<Rightarrow>
      case py_int_char c1 of Inl e \<Rightarrow> Inl e | Inr d1 \<Rightarrow>
        Inr (py_str d0 @ [char_of (of_char CHR ''a'' + d1 - 1)]))"

definition generate_move_notation :: "JsonMove \<Rightarrow> string \<Rightarrow> error + string" where
  "generate_move_notation move opening =
     (if from_pos move = ''drop'' then
        (let piece = (if JsonMove.piece_type move \<noteq> [] then [hd (JsonMove.piece_type move)]
                      else ''P'')
         in case usi_coord (to_pos move) of
              Inl e \<Rightarrow> Inl e
            | Inr to_coord \<Rightarrow> Inr (piece @ ''*'' @ to_coord))
      else
        (case usi_coord (from_pos move) of
           Inl e \<Rightarrow> Inl e
         | Inr from_coord \<Rightarrow>
            (case usi_coord (to_pos move) of
               Inl e \<Rightarrow> Inl e
             | Inr to_coord \<Rightarrow>
                (let notation = from_coord @ to_coord
                 in Inr (if promote move then notation @ ''+'' else notation)))))"

subsection \<open>\<open>convert_move\<close>\<close>

definition convert_move :: "JsonMove \<Rightarrow> string \<Rightarrow> string \<Rightarrow> error + ConvertedMove" where
  "convert_move move fen_key opening =
     (if from_pos move = ''drop'' then
        (case convert_coordinate (to_pos move) of
           Inl e \<Rightarrow> Inl e
         | Inr (to_row', to_col') \<Rightarrow>
            (let piece_type' = determine_piece_type move fen_key opening in
             case generate_move_notation move opening of
               Inl e \<Rightarrow> Inl e
             | Inr notation \<Rightarrow>
                Inr \<lparr>from_row = 0, from_col = 0,
                     to_row = to_row', to_col = to_col',
                     piece_type = piece_type',
                     is_drop = True,
                     is_promotion = promote move,
                     weight = assign_weight move opening,
                     evaluation = assign_evaluation move opening,
                     opening_name = opening,
                     move_notation = notation\<rparr>))
      else
        (case convert_coordinate (from_pos move) of
           Inl e \<Rightarrow> Inl e
         | Inr (from_row', from_col') \<Rightarrow>
            (case convert_coordinate (to_pos move) of
               Inl e \<Rightarrow> Inl e
             | Inr (to_row', to_col') \<Rightarrow>
                (let piece_type' = determine_piece_type move fen_key opening in
                 case generate_move_notation move opening of
                   Inl e \<Rightarrow> Inl e
                 | Inr notation \<Rightarrow>
                    Inr \<lparr>from_row = from_row', from_col = from_col',
                         to_row = to_row', to_col = to_col',
                         piece_type = piece_type',
                         is_drop = False,
                         is_promotion = promote move,
                         weight = assign_weight move opening,
                         evaluation = assign_evaluation move opening,
                         opening_name = opening,
                         move_notation = notation\<rparr>))))"

subsection \<open>\<open>convert_opening\<close> and \<open>convert_json_file\<close>\<close>

text \<open>The \<open>JsonMove(...)\<close> built from \<open>move_data.get(key, default)\<close>.\<close>

definition parse_move :: "MoveData \<Rightarrow> JsonMove" where
  "parse_move move_data =
     \<lparr>from_pos = (case json_from move_data of None \<Rightarrow> [] | Some v \<Rightarrow> v),
      to_pos = (case json_to move_data of None \<Rightarrow> [] | Some v \<Rightarrow> v),
      promote = (case json_promote move_data of None \<Rightarrow> False | Some v \<Rightarrow> v),
      JsonMove.piece_type = (case json_pieceType move_data of None \<Rightarrow> [] | Some v \<Rightarrow> v)\<rparr>"

text \<open>The inner loop of \<open>convert_opening\<close>, over the moves of one position.\<close>

fun convert_moves :: "MoveData list \<Rightarrow> string \<Rightarrow> string \<Rightarrow> error + ConvertedMove list" where
  "convert_moves [] fen_key opening = Inr []"
| "convert_moves (move_data # rest) fen_key opening =
     (case convert_move (parse_move move_data) fen_key opening of
        Inl e \<Rightarrow> Inl e
      | Inr converted_move \<Rightarrow>
         (case convert_moves rest fen_key opening of
            Inl e \<Rightarrow> Inl e
          | Inr converted_moves \<Rightarrow> Inr (converted_move # converted_moves)))"

text \<open>The outer loop of \<open>convert_opening\<close>, over the items of \<open>opening.moves\<close>.\<close>

fun convert_items :: "(string \<times> MoveData list) list \<Rightarrow> string \<Rightarrow> error + ConvertedPosition list" where
  "convert_items [] opening = Inr []"
| "convert_items ((fen_key, move_list) # rest) opening =
     (case convert_moves move_list fen_key opening of
        Inl e \<Rightarrow> Inl e
      | Inr converted_moves \<Rightarrow>
         (case convert_items rest opening of
            Inl e \<Rightarrow> Inl e
          | Inr positions \<Rightarrow>
             Inr (\<lparr>fen = fen_key, ConvertedPosition.moves = converted_moves\<rparr> # positions)))"

definition convert_opening :: "JsonOpening \<Rightarrow> error + ConvertedPosition list" where
  "convert_opening opening = convert_items (JsonOpening.moves opening) (name opening)"

fun convert_json_file :: "JsonOpening list \<Rightarrow> error + ConvertedPosition list" where
  "convert_json_file [] = Inr []"
| "convert_json_file (opening # rest) =
     (case convert_opening opening of
        Inl e \<Rightarrow> Inl e
      | Inr positions \<Rightarrow>
         (case convert_json_file rest of
            Inl e \<Rightarrow> Inl e
          | Inr all_positions \<Rightarrow> Inr (positions @ all_positions)))"

subsection \<open>\<open>generate_rust_code\<close>\<close>

text \<open>\<open>sep.join(lines)\<close> and \<open>str(b).lower()\<close> for a Boolean \<open>b\<close>.\<close>

fun py_join :: "string \<Rightarrow> string list \<Rightarrow> string" where
  "py_join sep [] = []"
| "py_join sep [l] = l"
| "py_join sep (l # l' # ls) = l @ sep @ py_join sep (l' # ls)"

definition bool_lower :: "bool \<Rightarrow> string" where
  "bool_lower b = (if b then ''true'' else ''false'')"

text \<open>The from-coordinate of a move record: \<open>None\<close> for a drop.\<close>

definition from_str :: "ConvertedMove \<Rightarrow> string" where
  "from_str move_data =
     (if is_drop move_data then ''None''
      else ''Some(Position::new('' @ py_str (from_row move_data) @ '', ''
             @ py_str (from_col move_data) @ ''))'')"

definition rust_move_lines :: "ConvertedMove \<Rightarrow> string list" where
  "rust_move_lines move_data =
     [''        BookMove::new_with_metadata('',
      ''            '' @ from_str move_data @ '','',
      ''            Position::new('' @ py_str (to_row move_data) @ '', ''
         @ py_str (to_col move_data) @ ''),'',
      ''            PieceType::'' @ piece_type move_data @ '','',
      ''            '' @ bool_lower (is_drop move_data) @ '','',
      ''            '' @ bool_lower (is_promotion move_data) @ '','',
      ''            '' @ py_str (weight move_data) @ '','',
      ''            '' @ py_str (evaluation move_data) @ '','',
      ''            Some(\"'' @ opening_name move_data @ ''\".to_string()),'',
      ''            Some(\"'' @ move_notation move_data @ ''\".to_string()),'',
      ''        ),'']"

definition rust_position_lines :: "ConvertedPosition \<Rightarrow> string list" where
  "rust_position_lines pos =
     [''    // Position: '' @ fen pos,
      ''    let moves = vec!['']
     @ concat (map rust_move_lines (moves pos))
     @ [''    ];'',
        ''    book.add_position(\"'' @ fen pos @ ''\".to_string(), moves);'',
        '''']"

definition generate_rust_code :: "ConvertedPosition list \<Rightarrow> string" where
  "generate_rust_code positions =
     py_join [CHR 0x0A]
       ([''use crate::opening_book::*;'',
         ''use crate::types::*;'',
         '''',
         ''pub fn create_opening_book() -> OpeningBook {'',
         ''    let mut book = OpeningBook::new();'',
         '''']
        @ concat (map rust_position_lines positions)
        @ [''    book.mark_loaded()'',
           ''}''])"

subsection \<open>\<open>generate_migration_report\<close>\<close>

text \<open>\<open>d[k] = v\<close>: an existing key keeps its place, a new key goes last.\<close>

fun dict_set :: "('k \<times> 'v) list \<Rightarrow> 'k \<Rightarrow> 'v \<Rightarrow> ('k \<times> 'v) list" where
  "dict_set [] k v = [(k, v)]"
| "dict_set ((k', v') # d) k v =
     (if k' = k then (k', v) # d else (k', v') # dict_set d k v)"

text \<open>\<open>d[k] = d.get(k, 0) + 1\<close>.\<close>

definition dict_incr :: "('k \<times> int) list \<Rightarrow> 'k \<Rightarrow> ('k \<times> int) list" where
  "dict_incr d k = dict_set d k (dict_get d k 0 + 1)"

text \<open>The three counters of the report; \<open>weight_distribution\<close> has its three fixed keys.\<close>

record WeightDistribution =
  high :: int
  medium :: int
  low :: int

record ReportCounts =
  opening_counts :: "(string \<times> int) list"
  piece_type_counts :: "(string \<times> int) list"
  weight_distribution :: WeightDistribution

definition initial_counts :: ReportCounts where
  "initial_counts =
     \<lparr>opening_counts = [], piece_type_counts = [],
      weight_distribution = \<lparr>high = 0, medium = 0, low = 0\<rparr>\<rparr>"

text \<open>The body of the inner loop, for one move.\<close>

definition count_move :: "ReportCounts \<Rightarrow> ConvertedMove \<Rightarrow> ReportCounts" where
  "count_move st move_data =
     \<lparr>opening_counts = dict_incr (opening_counts st) (opening_name move_data),
      piece_type_counts = dict_incr (piece_type_counts st) (piece_type move_data),
      weight_distribution =
        (let wd = weight_distribution st in
         if weight move_data \<ge> 800 then wd\<lparr>high := high wd + 1\<rparr>
         else if weight move_data \<ge> 500 then wd\<lparr>medium := medium wd + 1\<rparr>
         else wd\<lparr>low := low wd + 1\<rparr>)\<rparr>"

text \<open>The two nested loops over the positions and their moves.\<close>

definition count_positions :: "ConvertedPosition list \<Rightarrow> ReportCounts" where
  "count_positions positions =
     foldl (\<lambda>st pos. foldl count_move st (moves pos)) initial_counts positions"

definition total_positions :: "ConvertedPosition list \<Rightarrow> int" where
  "total_positions positions = int (length positions)"

definition total_moves :: "ConvertedPosition list \<Rightarrow> int" where
  "total_moves positions = sum_list (map (\<lambda>pos. int (length (moves pos))) positions)"

text \<open>
  \<open>sorted(d.items(), key=lambda x: x[1], reverse=True)\<close>: a stable sort, so items with
  equal counts keep their order.
\<close>

definition sorted_by_count :: "(string \<times> int) list \<Rightarrow> (string \<times> int) list" where
  "sorted_by_count items = sort_key (\<lambda>x. - snd x) items"

definition generate_migration_report :: "ConvertedPosition list \<Rightarrow> string" where
  "generate_migration_report positions =
     (let st = count_positions positions in
      py_join [CHR 0x0A]
        ([''=== Opening Book Migration Report ==='',
          ''Total Positions: '' @ py_str (total_positions positions),
          ''Total Moves: '' @ py_str (total_moves positions),
          '''',
          ''Opening Distribution:'']
         @ map (\<lambda>(opening, count). ''  '' @ opening @ '': '' @ py_str count @ '' moves'')
             (sorted_by_count (opening_counts st))
         @ ['''',
            ''Piece Type Distribution:'']
         @ map (\<lambda>(piece_type', count). ''  '' @ piece_type' @ '': '' @ py_str count @ '' moves'')
             (sorted_by_count (piece_type_counts st))
         @ ['''',
            ''Weight Distribution:'',
            ''  High (800+): '' @ py_str (high (weight_distribution st)) @ '' moves'',
            ''  Medium (500-799): '' @ py_str (medium (weight_distribution st)) @ '' moves'',
            ''  Low (<500): '' @ py_str (low (weight_distribution st)) @ '' moves'']))"

section \<open>Properties\<close>

subsection \<open>Helper facts\<close>

lemma opening_base_weight_bounds:
  "500 \<le> dict_get opening_weights opening 500 \<and> dict_get opening_weights opening 500 \<le> 850"
  by (simp add: dict_get_def opening_weights_def)

lemma assign_weight_unfold:
  "assign_weight move opening =
     min (dict_get opening_weights opening 500
          + (if promote move then 100 else if from_pos move = ''drop'' then 50 else 0)
          + (if (opening = ''Aggressive Rook'' \<and> from_pos move \<in> {''27'', ''26'', ''25''})
                \<or> (opening = ''Yagura'' \<and> from_pos move \<in> {''77'', ''69''})
             then 50 else 0))
         1000"
  by (simp add: assign_weight_def Let_def)

lemma assign_weight_range:
  "500 \<le> assign_weight move opening \<and> assign_weight move opening \<le> 1000"
proof -
  have b: "500 \<le> dict_get opening_weights opening 500"
    using opening_base_weight_bounds by blast
  show ?thesis
    unfolding assign_weight_unfold using b by auto
qed

subsection \<open>Weights\<close>

text \<open>
  C1. For every move and opening name, \<open>assign_weight\<close> returns the opening's base
  weight (the entry of the per-opening table, 500 when the opening is not in the table),
  plus 100 for a promotion or else 50 for a drop, plus 50 when the pair of opening and
  from-square is in the allow-list, capped at 1000; hence the weight lies between 0 and
  1000, also when every bonus applies.
\<close>

theorem assign_weight_formula:
  "assign_weight move opening =
     min ((case map_of opening_weights opening of Some w \<Rightarrow> w | None \<Rightarrow> 500)
          + (if promote move then 100 else if from_pos move = ''drop'' then 50 else 0)
          + (if (opening, from_pos move) \<in>
                  {(''Aggressive Rook'', ''27''), (''Aggressive Rook'', ''26''),
                   (''Aggressive Rook'', ''25''), (''Yagura'', ''77''), (''Yagura'', ''69'')}
             then 50 else 0))
         1000
   \<and> 0 \<le> assign_weight move opening \<and> assign_weight move opening \<le> 1000"
proof -
  have base: "dict_get opening_weights opening 500 =
      (case map_of opening_weights opening of Some w \<Rightarrow> w | None \<Rightarrow> 500)"
    by (simp add: dict_get_def split: option.splits)
  have allow: "((opening, from_pos move) \<in>
                  {(''Aggressive Rook'', ''27''), (''Aggressive Rook'', ''26''),
                   (''Aggressive Rook'', ''25''), (''Yagura'', ''77''), (''Yagura'', ''69'')})
      = ((opening = ''Aggressive Rook'' \<and> from_pos move \<in> {''27'', ''26'', ''25''})
          \<or> (opening = ''Yagura'' \<and> from_pos move \<in> {''77'', ''69''}))"
    by auto
  have eq: "assign_weight move opening =
     min ((case map_of opening_weights opening of Some w \<Rightarrow> w | None \<Rightarrow> 500)
          + (if promote move then 100 else if from_pos move = ''drop'' then 50 else 0)
          + (if (opening, from_pos move) \<in>
                  {(''Aggressive Rook'', ''27''), (''Aggressive Rook'', ''26''),
                   (''Aggressive Rook'', ''25''), (''Yagura'', ''77''), (''Yagura'', ''69'')}
             then 50 else 0))
         1000"
    unfolding allow base [symmetric] by (rule assign_weight_unfold)
  have "0 \<le> assign_weight move opening \<and> assign_weight move opening \<le> 1000"
    using assign_weight_range [of move "opening"] by linarith
  with eq show ?thesis by blast
qed

text \<open>
  The formula at a move where every bonus applies: a promoting move from square 27 in
  the Aggressive Rook opening gets 850 + 100 + 50, which the cap leaves at 1000.
\<close>

theorem assign_weight_formula_witness:
  "assign_weight \<lparr>from_pos = ''27'', to_pos = ''26'', promote = True,
                   JsonMove.piece_type = ''''\<rparr> ''Aggressive Rook'' = 1000"
  using assign_weight_formula
    [of "\<lparr>from_pos = ''27'', to_pos = ''26'', promote = True, JsonMove.piece_type = ''''\<rparr>"
        "''Aggressive Rook''"]
  by (simp add: opening_weights_def)

text \<open>
  C6. With all other fields equal, a move with \<open>promote = True\<close> is assigned a weight
  at least as large as with \<open>promote = False\<close>, for drops and under the cap too.
\<close>

theorem assign_weight_promote_mono:
  "assign_weight (move\<lparr>promote := False\<rparr>) opening
     \<le> assign_weight (move\<lparr>promote := True\<rparr>) opening"
  unfolding assign_weight_unfold by auto

theorem assign_weight_promote_mono_witness:
  "assign_weight \<lparr>from_pos = ''drop'', to_pos = ''55'', promote = False,
                   JsonMove.piece_type = ''P''\<rparr> ''Yagura''
     \<le> assign_weight \<lparr>from_pos = ''drop'', to_pos = ''55'', promote = True,
                       JsonMove.piece_type = ''P''\<rparr> ''Yagura''"
  using assign_weight_promote_mono
    [of "\<lparr>from_pos = ''drop'', to_pos = ''55'', promote = False, JsonMove.piece_type = ''P''\<rparr>"
        "''Yagura''"]
  by simp

text \<open>
  C10. Every entry of the base-weight table and the default for an unknown opening are
  at least 500 and no bonus is negative, so every assigned weight lies in [500, 1000].
\<close>

theorem assign_weight_at_least_500:
  "list_all (\<lambda>(opening', w). 500 \<le> w) opening_weights
   \<and> 500 \<le> dict_get opening_weights opening 500
   \<and> 500 \<le> assign_weight move opening \<and> assign_weight move opening \<le> 1000"
proof -
  have "list_all (\<lambda>(opening', w). 500 \<le> w) opening_weights"
    by (simp add: opening_weights_def)
  moreover have "500 \<le> dict_get opening_weights opening 500"
    using opening_base_weight_bounds by blast
  ultimately show ?thesis
    using assign_weight_range [of move "opening"] by blast
qed

theorem assign_weight_at_least_500_witness:
  "assign_weight \<lparr>from_pos = ''83'', to_pos = ''84'', promote = False,
                   JsonMove.piece_type = ''''\<rparr> ''Test Opening'' = 500"
proof -
  have "assign_weight \<lparr>from_pos = ''83'', to_pos = ''84'', promote = False,
                        JsonMove.piece_type = ''''\<rparr> ''Test Opening'' \<le> 500"
    by (simp add: assign_weight_unfold dict_get_def opening_weights_def)
  then show ?thesis
    using assign_weight_at_least_500
      [of "''Test Opening''"
          "\<lparr>from_pos = ''83'', to_pos = ''84'', promote = False, JsonMove.piece_type = ''''\<rparr>"]
    by linarith
qed

subsection \<open>Coordinates\<close>

lemma digit_char_iff:
  "(c \<in> set ''0123456789'') = ((48::nat) \<le> of_char c \<and> of_char c \<le> (57::nat))"
proof
  assume "c \<in> set ''0123456789''"
  then show "(48::nat) \<le> of_char c \<and> of_char c \<le> (57::nat)" by auto
next
  assume a: "(48::nat) \<le> of_char c \<and> of_char c \<le> (57::nat)"
  define n :: nat where "n = of_char c"
  from a have "48 \<le> n \<and> n \<le> 57" by (simp add: n_def)
  then have "n \<in> {48, 49, 50, 51, 52, 53, 54, 55, 56, 57}" by (simp; arith)
  then have "char_of n \<in> char_of ` {48, 49, 50, 51, 52, 53, 54, 55, 56, 57 :: nat}"
    by (rule imageI)
  then have "c \<in> char_of ` {48, 49, 50, 51, 52, 53, 54, 55, 56, 57 :: nat}"
    by (simp add: n_def)
  moreover have "char_of ` {48, 49, 50, 51, 52, 53, 54, 55, 56, 57 :: nat} = set ''0123456789''"
    by code_simp
  ultimately show "c \<in> set ''0123456789''" by (simp only:)
qed

lemma py_int_char_digit:
  "c \<in> set ''0123456789'' \<Longrightarrow> py_int_char c = Inr (int (of_char c) - 48)"
  unfolding digit_char_iff by (simp add: py_int_char_def)

lemma py_int_char_other:
  "c \<notin> set ''0123456789'' \<Longrightarrow> py_int_char c = Inl (ValueError (Invalid_literal_for_int [c]))"
  unfolding digit_char_iff by (simp add: py_int_char_def)

lemma digit_value_range:
  "c \<in> set ''0123456789'' \<Longrightarrow>
     (1 \<le> int (of_char c) - 48 \<and> int (of_char c) - 48 \<le> 9) = (c \<noteq> CHR ''0'')"
  by auto

lemma convert_coordinate_two:
  "convert_coordinate [a, b] =
     (if a \<notin> set ''0123456789'' then Inl (ValueError (Invalid_literal_for_int [a]))
      else if b \<notin> set ''0123456789'' then Inl (ValueError (Invalid_literal_for_int [b]))
      else if a = CHR ''0'' \<or> b = CHR ''0'' then Inl (ValueError (Coordinate_out_of_bounds [a, b]))
      else Inr (int (of_char b) - 49, int (of_char a) - 49))"
proof (cases "a \<in> set ''0123456789''")
  case False
  then show ?thesis
    by (simp add: convert_coordinate_def py_int_char_other del: set_simps)
next
  case a: True
  show ?thesis
  proof (cases "b \<in> set ''0123456789''")
    case False
    with a show ?thesis
      by (simp add: convert_coordinate_def py_int_char_other py_int_char_digit del: set_simps)
  next
    case b: True
    have ra: "(0 \<le> int (of_char a) - 49 \<and> int (of_char a) - 49 \<le> 8) = (a \<noteq> CHR ''0'')"
      using digit_value_range [OF a] by auto
    have rb: "(0 \<le> int (of_char b) - 49 \<and> int (of_char b) - 49 \<le> 8) = (b \<noteq> CHR ''0'')"
      using digit_value_range [OF b] by auto
    have "convert_coordinate [a, b] =
        (if \<not> (0 \<le> int (of_char b) - 49 \<and> int (of_char b) - 49 \<le> 8)
             \<or> \<not> (0 \<le> int (of_char a) - 49 \<and> int (of_char a) - 49 \<le> 8)
         then Inl (ValueError (Coordinate_out_of_bounds [a, b]))
         else Inr (int (of_char b) - 49, int (of_char a) - 49))"
      using a b
      by (simp add: convert_coordinate_def py_int_char_digit Let_def del: set_simps)
    then show ?thesis
      unfolding ra rb using a b by auto
  qed
qed

lemma length_two_conv: "(length s = 2) = (\<exists>a b. s = [a, b])"
  by (cases s; cases "tl s"; auto)

lemma digit19:
  "(c \<in> set ''123456789'') = (c \<in> set ''0123456789'' \<and> c \<noteq> CHR ''0'')"
  by auto

lemma rank_letter_no_digit: "c \<in> set ''abcdefghi'' \<Longrightarrow> c \<notin> set ''0123456789''"
  by auto

text \<open>
  C3. A token of exactly two characters whose first character is the column digit 1-9
  and whose second is the row digit 1-9 converts to the zero-based pair (row, col), both
  in [0,8]; every returned pair is in that range; a token whose length is not two, or
  whose decoded row or column is outside [0,8], raises \<open>ValueError\<close> (the
  InvalidCoordinate failure) and returns no pair.
\<close>

theorem convert_coordinate_total_spec:
  "(length coord = 2 \<and> coord ! 0 \<in> set ''123456789'' \<and> coord ! 1 \<in> set ''123456789''
      \<longrightarrow> convert_coordinate coord
            = Inr (int (of_char (coord ! 1)) - 49, int (of_char (coord ! 0)) - 49))
   \<and> (\<forall>row col. convert_coordinate coord = Inr (row, col)
         \<longrightarrow> 0 \<le> row \<and> row \<le> 8 \<and> 0 \<le> col \<and> col \<le> 8)
   \<and> (length coord \<noteq> 2
         \<longrightarrow> convert_coordinate coord = Inl (ValueError (Invalid_coordinate_format coord)))
   \<and> (\<forall>c r. length coord = 2 \<and> py_int_char (coord ! 0) = Inr c
              \<and> py_int_char (coord ! 1) = Inr r
              \<and> (\<not> (0 \<le> r - 1 \<and> r - 1 \<le> 8) \<or> \<not> (0 \<le> c - 1 \<and> c - 1 \<le> 8))
         \<longrightarrow> convert_coordinate coord = Inl (ValueError (Coordinate_out_of_bounds coord)))
   \<and> (length coord = 2
        \<and> (coord ! 0 \<notin> set ''123456789'' \<or> coord ! 1 \<notin> set ''123456789'')
         \<longrightarrow> (\<exists>msg. convert_coordinate coord = Inl (ValueError msg)))"
proof -
  have valid: "length coord = 2 \<and> coord ! 0 \<in> set ''123456789''
        \<and> coord ! 1 \<in> set ''123456789''
      \<longrightarrow> convert_coordinate coord
            = Inr (int (of_char (coord ! 1)) - 49, int (of_char (coord ! 0)) - 49)"
  proof
    assume h: "length coord = 2 \<and> coord ! 0 \<in> set ''123456789''
        \<and> coord ! 1 \<in> set ''123456789''"
    then obtain a b where ab: "coord = [a, b]"
      unfolding length_two_conv by blast
    from h have "a \<in> set ''123456789''" "b \<in> set ''123456789''"
      unfolding ab by (simp_all del: set_simps)
    then show "convert_coordinate coord
            = Inr (int (of_char (coord ! 1)) - 49, int (of_char (coord ! 0)) - 49)"
      unfolding ab convert_coordinate_two digit19 by (simp del: set_simps)
  qed
  have range: "\<forall>row col. convert_coordinate coord = Inr (row, col)
         \<longrightarrow> 0 \<le> row \<and> row \<le> 8 \<and> 0 \<le> col \<and> col \<le> 8"
  proof (intro allI impI)
    fix row col
    assume r: "convert_coordinate coord = Inr (row, col)"
    have "length coord = 2"
    proof (rule ccontr)
      assume "length coord \<noteq> 2"
      with r show False by (simp add: convert_coordinate_def)
    qed
    then obtain a b where ab: "coord = [a, b]"
      unfolding length_two_conv by blast
    from r have a: "a \<in> set ''0123456789''" and b: "b \<in> set ''0123456789''"
      and nz: "a \<noteq> CHR ''0''" "b \<noteq> CHR ''0''"
      and rc: "row = int (of_char b) - 49" "col = int (of_char a) - 49"
      unfolding ab convert_coordinate_two by (auto split: if_splits simp del: set_simps)
    from digit_value_range [OF a] nz
    have "1 \<le> int (of_char a) - 48 \<and> int (of_char a) - 48 \<le> 9"
      by blast
    moreover from digit_value_range [OF b] nz
    have "1 \<le> int (of_char b) - 48 \<and> int (of_char b) - 48 \<le> 9"
      by blast
    ultimately show "0 \<le> row \<and> row \<le> 8 \<and> 0 \<le> col \<and> col \<le> 8"
      unfolding rc by linarith
  qed
  have len: "length coord \<noteq> 2
         \<longrightarrow> convert_coordinate coord = Inl (ValueError (Invalid_coordinate_format coord))"
    by (simp add: convert_coordinate_def)
  have bounds: "\<forall>c r. length coord = 2 \<and> py_int_char (coord ! 0) = Inr c
              \<and> py_int_char (coord ! 1) = Inr r
              \<and> (\<not> (0 \<le> r - 1 \<and> r - 1 \<le> 8) \<or> \<not> (0 \<le> c - 1 \<and> c - 1 \<le> 8))
         \<longrightarrow> convert_coordinate coord = Inl (ValueError (Coordinate_out_of_bounds coord))"
    by (simp add: convert_coordinate_def Let_def)
  have other: "length coord = 2
        \<and> (coord ! 0 \<notin> set ''123456789'' \<or> coord ! 1 \<notin> set ''123456789'')
         \<longrightarrow> (\<exists>msg. convert_coordinate coord = Inl (ValueError msg))"
  proof
    assume h: "length coord = 2
        \<and> (coord ! 0 \<notin> set ''123456789'' \<or> coord ! 1 \<notin> set ''123456789'')"
    then obtain a b where ab: "coord = [a, b]"
      unfolding length_two_conv by blast
    from h have "a \<notin> set ''123456789'' \<or> b \<notin> set ''123456789''"
      unfolding ab by (simp del: set_simps)
    then show "\<exists>msg. convert_coordinate coord = Inl (ValueError msg)"
      unfolding ab convert_coordinate_two digit19 by (auto simp del: set_simps)
  qed
  show ?thesis
    using valid range len bounds other by (intro conjI)
qed

text \<open>
  The token 27 (column 2, row 7) converts to (6, 1); the one-character token 2 and the
  out-of-range token 10 raise.
\<close>

theorem convert_coordinate_total_spec_witness:
  "convert_coordinate ''27'' = Inr (6, 1)
   \<and> convert_coordinate ''2'' = Inl (ValueError (Invalid_coordinate_format ''2''))
   \<and> convert_coordinate ''10'' = Inl (ValueError (Coordinate_out_of_bounds ''10''))"
proof -
  have a: "convert_coordinate ''27'' = Inr (6, 1)"
    using convert_coordinate_total_spec [of "''27''", THEN conjunct1] by simp
  have b: "convert_coordinate ''2'' = Inl (ValueError (Invalid_coordinate_format ''2''))"
    using convert_coordinate_total_spec
      [of "''2''", THEN conjunct2, THEN conjunct2, THEN conjunct1]
    by simp
  have d: "py_int_char CHR ''1'' = Inr 1" "py_int_char CHR ''0'' = Inr 0"
    by (simp_all add: py_int_char_def)
  have c: "convert_coordinate ''10'' = Inl (ValueError (Coordinate_out_of_bounds ''10''))"
    using convert_coordinate_total_spec
      [of "''10''", THEN conjunct2, THEN conjunct2, THEN conjunct2, THEN conjunct1,
       THEN spec, THEN spec, of 1 0] d
    by simp
  from a b c show ?thesis by (intro conjI)
qed

text \<open>
  C8, as the code has it. \<open>convert_coordinate\<close> takes the token alone: there is no
  dialect parameter and no detection, only the pure-digit form is read. A token of the
  algebraic form (a file digit 1-9 followed by a rank letter a-i) raises \<open>ValueError\<close>
  at the letter.
\<close>

theorem convert_coordinate_algebraic_19:
  "file \<in> set ''123456789'' \<Longrightarrow> rank \<in> set ''abcdefghi'' \<Longrightarrow>
     convert_coordinate [file, rank] = Inl (ValueError (Invalid_literal_for_int [rank]))"
  unfolding convert_coordinate_two digit19
  using rank_letter_no_digit [of rank] by (simp del: set_simps)

theorem convert_coordinate_algebraic_19_witness:
  "CHR ''2'' \<in> set ''123456789'' \<and> CHR ''f'' \<in> set ''abcdefghi''
   \<and> convert_coordinate ''2f'' = Inl (ValueError (Invalid_literal_for_int ''f''))"
  using convert_coordinate_algebraic_19 [of "CHR ''2''" "CHR ''f''"] by simp

text \<open>
  The claim of C8 fails at the algebraic token 7g: the translator has no way to select
  the algebraic dialect, and the token raises instead of giving the pair (6, 6).
\<close>

theorem convert_coordinate_7g_fails:
  "convert_coordinate ''7g'' = Inl (ValueError (Invalid_literal_for_int ''g''))"
  by (simp add: convert_coordinate_def py_int_char_def)

subsection \<open>Move categories and evaluation\<close>

text \<open>
  C5. \<open>determine_move_type\<close> takes the first match of: a drop is tactical; a promotion
  is tactical; a destination among 44, 45, 54, 55 is central\_control; a destination among
  77, 78, 87, 88 is king\_safety; an opening among Yagura and Aggressive Rook is
  development; anything else is positional.
\<close>

theorem determine_move_type_first_match:
  "determine_move_type move opening =
     (if from_pos move = ''drop'' then ''tactical''
      else if promote move then ''tactical''
      else if to_pos move \<in> {''44'', ''45'', ''54'', ''55''} then ''central_control''
      else if to_pos move \<in> {''77'', ''78'', ''87'', ''88''} then ''king_safety''
      else if opening \<in> {''Yagura'', ''Aggressive Rook''} then ''development''
      else ''positional'')"
  by (simp add: determine_move_type_def)

text \<open>
  One move for each rule, each of them also matching a later rule that loses: a
  promoting drop to 55, a promotion to 55, a move to 55 in Yagura, a move to 77 in
  Yagura, another Yagura move, and a move of an unknown opening.
\<close>

theorem determine_move_type_first_match_witness:
  "determine_move_type \<lparr>from_pos = ''drop'', to_pos = ''55'', promote = True,
       JsonMove.piece_type = ''P''\<rparr> ''Yagura'' = ''tactical''
   \<and> determine_move_type \<lparr>from_pos = ''56'', to_pos = ''55'', promote = True,
       JsonMove.piece_type = ''''\<rparr> ''Yagura'' = ''tactical''
   \<and> determine_move_type \<lparr>from_pos = ''56'', to_pos = ''55'', promote = False,
       JsonMove.piece_type = ''''\<rparr> ''Yagura'' = ''central_control''
   \<and> determine_move_type \<lparr>from_pos = ''76'', to_pos = ''77'', promote = False,
       JsonMove.piece_type = ''''\<rparr> ''Yagura'' = ''king_safety''
   \<and> determine_move_type \<lparr>from_pos = ''27'', to_pos = ''26'', promote = False,
       JsonMove.piece_type = ''''\<rparr> ''Yagura'' = ''development''
   \<and> determine_move_type \<lparr>from_pos = ''27'', to_pos = ''26'', promote = False,
       JsonMove.piece_type = ''''\<rparr> ''Test Opening'' = ''positional''"
proof -
  note r = determine_move_type_first_match
  show ?thesis
    by (intro conjI; subst r; simp)
qed

lemma determine_move_type_in_table:
  "map_of evaluation_scores (determine_move_type move opening)
     = Some (dict_get evaluation_scores (determine_move_type move opening) 0)"
  by (simp add: determine_move_type_def dict_get_def evaluation_scores_def)

text \<open>
  C2, as the code has it. The evaluation is the category's base score from the table,
  plus 10 for the opening Kakugawari (Bishop Exchange), 5 for Aggressive Rook and for
  Yagura, and nothing for any other opening, plus 15 for a promotion; the sum is returned
  as it is, without a cap.
\<close>

theorem assign_evaluation_formula:
  "map_of evaluation_scores (determine_move_type move opening)
     = Some (dict_get evaluation_scores (determine_move_type move opening) 0)
   \<and> assign_evaluation move opening =
       dict_get evaluation_scores (determine_move_type move opening) 0
       + (if opening = ''Kakugawari (Bishop Exchange)'' then 10
          else if opening \<in> {''Aggressive Rook'', ''Yagura''} then 5
          else 0)
       + (if promote move then 15 else 0)"
proof -
  have "assign_evaluation move opening =
       dict_get evaluation_scores (determine_move_type move opening) 0
       + (if opening = ''Kakugawari (Bishop Exchange)'' then 10
          else if opening \<in> {''Aggressive Rook'', ''Yagura''} then 5
          else 0)
       + (if promote move then 15 else 0)"
    by (simp add: assign_evaluation_def Let_def)
  with determine_move_type_in_table show ?thesis by blast
qed

theorem assign_evaluation_formula_witness:
  "assign_evaluation \<lparr>from_pos = ''22'', to_pos = ''88'', promote = True,
       JsonMove.piece_type = ''''\<rparr> ''Kakugawari (Bishop Exchange)'' = 55"
proof -
  have "dict_get evaluation_scores ''tactical'' 0 = 30"
    by (simp add: dict_get_def evaluation_scores_def)
  then show ?thesis
    using assign_evaluation_formula
      [of "\<lparr>from_pos = ''22'', to_pos = ''88'', promote = True, JsonMove.piece_type = ''''\<rparr>"
          "''Kakugawari (Bishop Exchange)''"]
    by (simp add: determine_move_type_def)
qed

text \<open>
  The claim of C2 gives every opening other than the bishop exchange a bonus of 5. For
  a plain move of the opening Test Opening the code returns the positional base score 10
  alone, where the claimed sum is 15.
\<close>

theorem assign_evaluation_unknown_opening:
  "assign_evaluation \<lparr>from_pos = ''83'', to_pos = ''84'', promote = False,
       JsonMove.piece_type = ''''\<rparr> ''Test Opening'' = 10
   \<and> dict_get evaluation_scores
        (determine_move_type \<lparr>from_pos = ''83'', to_pos = ''84'', promote = False,
           JsonMove.piece_type = ''''\<rparr> ''Test Opening'') 0
       + 5 + 0 = 15"
  by (simp add: assign_evaluation_def determine_move_type_def dict_get_def
      evaluation_scores_def)

subsection \<open>Drop moves\<close>

lemma from_str_cases:
  "from_str cm = (if is_drop cm then ''None''
     else ''Some(Position::new('' @ py_str (from_row cm) @ '', '' @ py_str (from_col cm) @ ''))'')
   \<and> (\<not> is_drop cm \<longrightarrow> from_str cm \<noteq> ''None'')"
  by (simp add: from_str_def)

lemma drop_move_record:
  assumes "from_pos move = ''drop''" and "convert_move move fen_key opening = Inr cm"
  shows "is_drop cm \<and> from_row cm = 0 \<and> from_col cm = 0"
  using assms
  by (auto simp: convert_move_def Let_def split: sum.splits prod.splits)

lemma no_drop_move_record:
  assumes "from_pos move \<noteq> ''drop''" and "convert_move move fen_key opening = Inr cm"
  shows "\<not> is_drop cm \<and> convert_coordinate (from_pos move) = Inr (from_row cm, from_col cm)"
  using assms
  by (auto simp: convert_move_def Let_def split: sum.splits prod.splits)

text \<open>
  C4, as the code has it. In a move converted by \<open>convert_move\<close>, \<open>is_drop\<close> is true
  exactly when the from-square of the input is the drop sentinel. The record of a drop
  holds the placeholder from\_row = 0, from\_col = 0; that the from-coordinate is absent is
  carried by the flag \<open>is_drop\<close>, and the generated source text writes \<open>None\<close> for the
  from-coordinate of a drop and \<open>Some(Position::new(row, col))\<close>, which is never
  \<open>None\<close>, for any other move.
\<close>

theorem convert_move_drop_flag:
  assumes "convert_move move fen_key opening = Inr cm"
  shows "is_drop cm = (from_pos move = ''drop'')
    \<and> (is_drop cm \<longrightarrow> from_row cm = 0 \<and> from_col cm = 0 \<and> from_str cm = ''None'')
    \<and> (\<not> is_drop cm \<longrightarrow>
          convert_coordinate (from_pos move) = Inr (from_row cm, from_col cm)
          \<and> from_str cm = ''Some(Position::new('' @ py_str (from_row cm) @ '', ''
                             @ py_str (from_col cm) @ ''))''
          \<and> from_str cm \<noteq> ''None'')"
proof (cases "from_pos move = ''drop''")
  case True
  from drop_move_record [OF True assms] from_str_cases [of cm] True
  show ?thesis by simp
next
  case False
  from no_drop_move_record [OF False assms] from_str_cases [of cm] False
  show ?thesis by simp
qed

text \<open>A silver dropped on 55 in Yagura, and its from-coordinate in the source text.\<close>

theorem convert_move_drop_flag_witness:
  "convert_move \<lparr>from_pos = ''drop'', to_pos = ''55'', promote = False,
       JsonMove.piece_type = ''S''\<rparr> ''f'' ''Yagura''
     = Inr \<lparr>from_row = 0, from_col = 0, to_row = 4, to_col = 4, piece_type = ''Pawn'',
            is_drop = True, is_promotion = False, weight = 850, evaluation = 35,
            opening_name = ''Yagura'', move_notation = ''S*5e''\<rparr>
   \<and> from_str \<lparr>from_row = 0, from_col = 0, to_row = 4, to_col = 4, piece_type = ''Pawn'',
            is_drop = True, is_promotion = False, weight = 850, evaluation = 35,
            opening_name = ''Yagura'', move_notation = ''S*5e''\<rparr> = ''None''"
proof -
  have c: "convert_move \<lparr>from_pos = ''drop'', to_pos = ''55'', promote = False,
       JsonMove.piece_type = ''S''\<rparr> ''f'' ''Yagura''
     = Inr \<lparr>from_row = 0, from_col = 0, to_row = 4, to_col = 4, piece_type = ''Pawn'',
            is_drop = True, is_promotion = False, weight = 850, evaluation = 35,
            opening_name = ''Yagura'', move_notation = ''S*5e''\<rparr>"
    by code_simp
  from convert_move_drop_flag [OF c] c show ?thesis by simp
qed

text \<open>
  The claim of C4 fails on the converted record: a drop carries from\_row = 0 and
  from\_col = 0, the very values of a move that starts on the square 11.
\<close>

theorem convert_move_drop_carries_zero:
  "convert_move \<lparr>from_pos = ''drop'', to_pos = ''12'', promote = False,
       JsonMove.piece_type = ''P''\<rparr> ''f'' ''Test Opening''
     = Inr \<lparr>from_row = 0, from_col = 0, to_row = 1, to_col = 0, piece_type = ''Pawn'',
            is_drop = True, is_promotion = False, weight = 550, evaluation = 30,
            opening_name = ''Test Opening'', move_notation = ''P*1b''\<rparr>
   \<and> convert_move \<lparr>from_pos = ''11'', to_pos = ''12'', promote = False,
       JsonMove.piece_type = ''P''\<rparr> ''f'' ''Test Opening''
     = Inr \<lparr>from_row = 0, from_col = 0, to_row = 1, to_col = 0, piece_type = ''Pawn'',
            is_drop = False, is_promotion = False, weight = 500, evaluation = 10,
            opening_name = ''Test Opening'', move_notation = ''1a1b''\<rparr>"
  by code_simp

subsection \<open>Position identifiers\<close>

lemma convert_items_fen:
  "convert_items items opening = Inr positions \<Longrightarrow> map fen positions = map fst items"
proof (induction items arbitrary: positions)
  case Nil
  then show ?case by simp
next
  case (Cons item items)
  obtain fen_key move_list where item: "item = (fen_key, move_list)"
    by (cases item)
  from Cons.prems obtain converted_moves rest
    where rest: "convert_items items opening = Inr rest"
      and positions: "positions = \<lparr>fen = fen_key, moves = converted_moves\<rparr> # rest"
    unfolding item by (auto split: sum.splits)
  from Cons.IH [OF rest] show ?case
    by (simp add: positions item)
qed

lemma convert_json_file_fen:
  "convert_json_file data = Inr positions \<Longrightarrow>
     map fen positions = concat (map (\<lambda>opening. map fst (JsonOpening.moves opening)) data)"
proof (induction data arbitrary: positions)
  case Nil
  then show ?case by simp
next
  case (Cons opn data)
  from Cons.prems obtain first rest
    where first: "convert_opening opn = Inr first"
      and rest: "convert_json_file data = Inr rest"
      and positions: "positions = first @ rest"
    by (auto split: sum.splits)
  from first have "map fen first = map fst (JsonOpening.moves opn)"
    unfolding convert_opening_def by (rule convert_items_fen)
  with Cons.IH [OF rest] show ?case
    by (simp add: positions)
qed

text \<open>
  C7, as the code has it. The catalog has one Position record for each position
  identifier of each opening, in the order of the input; nothing merges the records of
  two openings. So the identifiers of the catalog are unique exactly when they are unique
  across all openings of the input, and the records that come from one opening have
  unique identifiers, as the keys of its dictionary are.
\<close>

theorem convert_json_file_identifiers:
  assumes "convert_json_file data = Inr positions"
  shows "map fen positions = concat (map (\<lambda>opening. map fst (JsonOpening.moves opening)) data)
    \<and> distinct (map fen positions)
        = distinct (concat (map (\<lambda>opening. map fst (JsonOpening.moves opening)) data))
    \<and> (\<forall>opening. data = [opening] \<and> distinct (map fst (JsonOpening.moves opening))
          \<longrightarrow> distinct (map fen positions))"
proof -
  note fens = convert_json_file_fen [OF assms]
  then have "\<forall>opening. data = [opening] \<and> distinct (map fst (JsonOpening.moves opening))
          \<longrightarrow> distinct (map fen positions)"
    by auto
  with fens show ?thesis by simp
qed

text \<open>
  The input of scripts/test\_migration.py: one opening with two positions; the catalog
  has their two identifiers, in order, and they differ.
\<close>

theorem convert_json_file_identifiers_witness:
  "convert_json_file
     [\<lparr>name = ''Test Opening'',
       JsonOpening.moves =
        [(''lnsgkgsnl/1r5b1/ppppppppp/9/9/9/PPPPPPPPP/1B5R1/LNSGKGSNL b - 1'',
          [\<lparr>json_from = Some ''27'', json_to = Some ''26'', json_promote = None,
            json_pieceType = None\<rparr>,
           \<lparr>json_from = Some ''77'', json_to = Some ''76'', json_promote = None,
            json_pieceType = None\<rparr>]),
         (''lnsgkgsnl/1r5b1/ppppppppp/9/9/7P1/PPPPPPP1P/1B5R1/LNSGKGSNL w - 2'',
          [\<lparr>json_from = Some ''83'', json_to = Some ''84'', json_promote = None,
            json_pieceType = None\<rparr>])]\<rparr>]
   = Inr
     [\<lparr>fen = ''lnsgkgsnl/1r5b1/ppppppppp/9/9/9/PPPPPPPPP/1B5R1/LNSGKGSNL b - 1'',
       moves =
        [\<lparr>from_row = 6, from_col = 1, to_row = 5, to_col = 1, piece_type = ''Pawn'',
          is_drop = False, is_promotion = False, weight = 500, evaluation = 10,
          opening_name = ''Test Opening'', move_notation = ''2g2f''\<rparr>,
         \<lparr>from_row = 6, from_col = 6, to_row = 5, to_col = 6, piece_type = ''Pawn'',
          is_drop = False, is_promotion = False, weight = 500, evaluation = 10,
          opening_name = ''Test Opening'', move_notation = ''7g7f''\<rparr>]\<rparr>,
      \<lparr>fen = ''lnsgkgsnl/1r5b1/ppppppppp/9/9/7P1/PPPPPPP1P/1B5R1/LNSGKGSNL w - 2'',
       moves =
        [\<lparr>from_row = 2, from_col = 7, to_row = 3, to_col = 7, piece_type = ''Pawn'',
          is_drop = False, is_promotion = False, weight = 500, evaluation = 10,
          opening_name = ''Test Opening'', move_notation = ''8c8d''\<rparr>]\<rparr>]
   \<and> distinct
       [''lnsgkgsnl/1r5b1/ppppppppp/9/9/9/PPPPPPPPP/1B5R1/LNSGKGSNL b - 1'',
        ''lnsgkgsnl/1r5b1/ppppppppp/9/9/7P1/PPPPPPP1P/1B5R1/LNSGKGSNL w - 2'']"
  (is "?run = Inr ?catalog \<and> ?unique")
proof -
  have run: "?run = Inr ?catalog"
    by code_simp
  from convert_json_file_identifiers [OF run] have "distinct (map fen ?catalog)"
    by simp
  then have ?unique
    by simp
  with run show ?thesis
    by (intro conjI)
qed

text \<open>
  The claim of C7 fails when two openings hold the same position: the starting position
  under Yagura and under Aggressive Rook gives two Position records with one identifier.
\<close>

theorem convert_json_file_shared_position:
  "convert_json_file
     [\<lparr>name = ''Yagura'',
       JsonOpening.moves =
        [(''lnsgkgsnl/1r5b1/ppppppppp/9/9/9/PPPPPPPPP/1B5R1/LNSGKGSNL b - 1'',
          [\<lparr>json_from = Some ''77'', json_to = Some ''76'', json_promote = None,
            json_pieceType = None\<rparr>])]\<rparr>,
      \<lparr>name = ''Aggressive Rook'',
       JsonOpening.moves =
        [(''lnsgkgsnl/1r5b1/ppppppppp/9/9/9/PPPPPPPPP/1B5R1/LNSGKGSNL b - 1'',
          [\<lparr>json_from = Some ''27'', json_to = Some ''26'', json_promote = None,
            json_pieceType = None\<rparr>])]\<rparr>]
   = Inr
     [\<lparr>fen = ''lnsgkgsnl/1r5b1/ppppppppp/9/9/9/PPPPPPPPP/1B5R1/LNSGKGSNL b - 1'',
       moves =
        [\<lparr>from_row = 6, from_col = 6, to_row = 5, to_col = 6, piece_type = ''Pawn'',
          is_drop = False, is_promotion = False, weight = 850, evaluation = 20,
          opening_name = ''Yagura'', move_notation = ''7g7f''\<rparr>]\<rparr>,
      \<lparr>fen = ''lnsgkgsnl/1r5b1/ppppppppp/9/9/9/PPPPPPPPP/1B5R1/LNSGKGSNL b - 1'',
       moves =
        [\<lparr>from_row = 6, from_col = 1, to_row = 5, to_col = 1, piece_type = ''Rook'',
          is_drop = False, is_promotion = False, weight = 900, evaluation = 20,
          opening_name = ''Aggressive Rook'', move_notation = ''2g2f''\<rparr>]\<rparr>]"
  by code_simp

subsection \<open>The migration report\<close>

lemma map_of_dict_set: "map_of (dict_set d k v) = (map_of d)(k \<mapsto> v)"
  by (induction d k v rule: dict_set.induct) auto

lemma keys_dict_set:
  "map fst (dict_set d k v) = (if k \<in> set (map fst d) then map fst d else map fst d @ [k])"
  by (induction d k v rule: dict_set.induct) auto

lemma dict_get_incr:
  "dict_get (dict_incr d k) k' 0 = dict_get d k' 0 + (if k' = k then 1 else 0)"
  by (simp add: dict_incr_def dict_get_def map_of_dict_set)

lemma keys_dict_incr:
  "set (map fst (dict_incr d k)) = insert k (set (map fst d))"
  "distinct (map fst d) \<Longrightarrow> distinct (map fst (dict_incr d k))"
  by (auto simp: dict_incr_def keys_dict_set)

lemma dict_get_count:
  "dict_get (foldl dict_incr d ks) k 0 = dict_get d k 0 + int (length (filter (\<lambda>x. x = k) ks))"
  by (induction ks arbitrary: d) (simp_all add: dict_get_incr)

lemma keys_count:
  "set (map fst (foldl dict_incr d ks)) = set (map fst d) \<union> set ks"
  by (induction ks arbitrary: d) (simp_all add: keys_dict_incr del: set_map)

lemma distinct_count:
  "distinct (map fst d) \<Longrightarrow> distinct (map fst (foldl dict_incr d ks))"
  by (induction ks arbitrary: d) (simp_all add: keys_dict_incr)

lemma count_entry:
  assumes "(k, c) \<in> set (foldl dict_incr [] ks)"
  shows "c = int (length (filter (\<lambda>x. x = k) ks)) \<and> 0 < c"
proof -
  have "distinct (map fst (foldl dict_incr [] ks))"
    by (rule distinct_count) simp
  with assms have "map_of (foldl dict_incr [] ks) k = Some c"
    by simp
  then have "dict_get (foldl dict_incr [] ks) k 0 = c"
    by (simp add: dict_get_def)
  moreover have "dict_get (foldl dict_incr [] ks) k 0
      = dict_get [] k 0 + int (length (filter (\<lambda>x. x = k) ks))"
    by (rule dict_get_count)
  moreover have "dict_get ([] :: ('a \<times> int) list) k 0 = 0"
    by (simp add: dict_get_def)
  ultimately have c: "c = int (length (filter (\<lambda>x. x = k) ks))"
    by simp
  from assms have "k \<in> set (map fst (foldl dict_incr [] ks))"
    by force
  then have "k \<in> set ks"
    by (simp add: keys_count del: set_map)
  then have "filter (\<lambda>x. x = k) ks \<noteq> []"
    by (auto simp: filter_empty_conv)
  with c show ?thesis by simp
qed

lemma foldl_nested:
  "foldl (\<lambda>st pos. foldl f st (g pos)) st ps = foldl f st (concat (map g ps))"
  by (induction ps arbitrary: st) simp_all

lemma count_positions_concat:
  "count_positions positions = foldl count_move initial_counts (concat (map moves positions))"
  unfolding count_positions_def by (rule foldl_nested)

lemma opening_counts_foldl:
  "opening_counts (foldl count_move st ms)
     = foldl dict_incr (opening_counts st) (map opening_name ms)"
  by (induction ms arbitrary: st) (simp_all add: count_move_def)

lemma piece_type_counts_foldl:
  "piece_type_counts (foldl count_move st ms)
     = foldl dict_incr (piece_type_counts st) (map piece_type ms)"
  by (induction ms arbitrary: st) (simp_all add: count_move_def)

lemma weight_distribution_foldl:
  "high (weight_distribution (foldl count_move st ms))
     = high (weight_distribution st) + int (length (filter (\<lambda>m. 800 \<le> weight m) ms))
   \<and> medium (weight_distribution (foldl count_move st ms))
     = medium (weight_distribution st)
       + int (length (filter (\<lambda>m. 500 \<le> weight m \<and> weight m < 800) ms))
   \<and> low (weight_distribution (foldl count_move st ms))
     = low (weight_distribution st) + int (length (filter (\<lambda>m. weight m < 500) ms))"
  by (induction ms arbitrary: st) (simp_all add: count_move_def Let_def)

lemma filter_key_map:
  "length (filter (\<lambda>x. x = k) (map f ms)) = length (filter (\<lambda>m. f m = k) ms)"
  by (induction ms) simp_all

lemma sorted_by_count_descending:
  "sorted_wrt (\<lambda>c c'. c \<ge> c') (map snd (sorted_by_count items))"
proof -
  have "sorted (map (\<lambda>x. - snd x) (sorted_by_count items))"
    unfolding sorted_by_count_def by (rule sorted_sort_key)
  then show ?thesis
    by (simp add: sorted_wrt_map)
qed

lemma sorted_by_count_items:
  "set (sorted_by_count items) = set items"
  "distinct (map fst (sorted_by_count items)) = distinct (map fst items)"
  unfolding sorted_by_count_def by (simp_all add: distinct_map)

lemma distribution_entries:
  assumes "(k, c) \<in> set (sorted_by_count (foldl dict_incr [] (map f ms)))"
  shows "c = int (length (filter (\<lambda>m. f m = k) ms)) \<and> 0 < c"
proof -
  from assms have "(k, c) \<in> set (foldl dict_incr [] (map f ms))"
    by (simp only: sorted_by_count_items)
  from count_entry [OF this] show ?thesis
    unfolding filter_key_map .
qed

lemma distribution_keys:
  "fst ` set (sorted_by_count (foldl dict_incr [] (map f ms))) = f ` set ms"
  "distinct (map fst (sorted_by_count (foldl dict_incr [] (map f ms))))"
proof -
  have "set (map fst (foldl dict_incr [] (map f ms))) = set (map f ms)"
    by (simp add: keys_count del: set_map)
  then show "fst ` set (sorted_by_count (foldl dict_incr [] (map f ms))) = f ` set ms"
    by (simp add: sorted_by_count_items)
  show "distinct (map fst (sorted_by_count (foldl dict_incr [] (map f ms))))"
    unfolding sorted_by_count_items by (rule distinct_count) simp
qed

lemma length_concat_sum:
  "int (length (concat (map g ps))) = sum_list (map (\<lambda>p. int (length (g p))) ps)"
  by (induction ps) simp_all

lemma weights_900_600_300:
  assumes "map weight ms = [900, 600, 300]"
  shows "length (filter (\<lambda>m. 800 \<le> weight m) ms) = 1
    \<and> length (filter (\<lambda>m. 500 \<le> weight m \<and> weight m < 800) ms) = 1
    \<and> length (filter (\<lambda>m. weight m < 500) ms) = 1"
proof -
  from assms obtain a b c where "ms = [a, b, c]" "weight a = 900" "weight b = 600"
    "weight c = 300"
    by auto
  then show ?thesis by simp
qed

text \<open>
  C9. For any catalog, with \<open>all_moves\<close> the moves of all positions and \<open>st\<close> the
  counters after the loops of \<open>generate_migration_report\<close>: the position count is the
  number of Position records; the move count is the sum of the lengths of the move lists;
  the opening lines and the piece-type lines are in descending order of count, with one
  line for each opening (piece type) that occurs, whose count is the number of moves that
  have it; the histogram counts the moves of weight at least 800 as high, of weight from
  500 to 799 as medium and of weight below 500 as low. Moves of weights 900, 600 and 300
  give high 1, medium 1 and low 1.
\<close>

theorem migration_report_statistics:
  fixes positions :: "ConvertedPosition list"
  defines "all_moves \<equiv> concat (map moves positions)"
    and "st \<equiv> count_positions positions"
  shows "total_positions positions = int (length positions)
    \<and> total_moves positions = sum_list (map (\<lambda>pos. int (length (moves pos))) positions)
    \<and> total_moves positions = int (length all_moves)
    \<and> sorted_wrt (\<lambda>c c'. c \<ge> c') (map snd (sorted_by_count (opening_counts st)))
    \<and> distinct (map fst (sorted_by_count (opening_counts st)))
    \<and> fst ` set (sorted_by_count (opening_counts st)) = opening_name ` set all_moves
    \<and> (\<forall>(opening, count) \<in> set (sorted_by_count (opening_counts st)).
          count = int (length (filter (\<lambda>m. opening_name m = opening) all_moves)) \<and> 0 < count)
    \<and> sorted_wrt (\<lambda>c c'. c \<ge> c') (map snd (sorted_by_count (piece_type_counts st)))
    \<and> distinct (map fst (sorted_by_count (piece_type_counts st)))
    \<and> fst ` set (sorted_by_count (piece_type_counts st)) = piece_type ` set all_moves
    \<and> (\<forall>(piece, count) \<in> set (sorted_by_count (piece_type_counts st)).
          count = int (length (filter (\<lambda>m. piece_type m = piece) all_moves)) \<and> 0 < count)
    \<and> high (weight_distribution st) = int (length (filter (\<lambda>m. 800 \<le> weight m) all_moves))
    \<and> medium (weight_distribution st)
        = int (length (filter (\<lambda>m. 500 \<le> weight m \<and> weight m < 800) all_moves))
    \<and> low (weight_distribution st) = int (length (filter (\<lambda>m. weight m < 500) all_moves))
    \<and> (map weight all_moves = [900, 600, 300]
         \<longrightarrow> high (weight_distribution st) = 1 \<and> medium (weight_distribution st) = 1
             \<and> low (weight_distribution st) = 1)"
proof -
  have st: "st = foldl count_move initial_counts all_moves"
    unfolding st_def all_moves_def by (rule count_positions_concat)
  have oc: "opening_counts st = foldl dict_incr [] (map opening_name all_moves)"
    unfolding st opening_counts_foldl by (simp add: initial_counts_def)
  have pc: "piece_type_counts st = foldl dict_incr [] (map piece_type all_moves)"
    unfolding st piece_type_counts_foldl by (simp add: initial_counts_def)
  have p1: "total_positions positions = int (length positions)"
    by (simp add: total_positions_def)
  have p2: "total_moves positions = sum_list (map (\<lambda>pos. int (length (moves pos))) positions)"
    by (simp add: total_moves_def)
  have p3: "total_moves positions = int (length all_moves)"
    unfolding all_moves_def length_concat_sum by (simp add: total_moves_def)
  have o1: "sorted_wrt (\<lambda>c c'. c \<ge> c') (map snd (sorted_by_count (opening_counts st)))"
    by (rule sorted_by_count_descending)
  have o2: "distinct (map fst (sorted_by_count (opening_counts st)))"
    unfolding oc by (rule distribution_keys)
  have o3: "fst ` set (sorted_by_count (opening_counts st)) = opening_name ` set all_moves"
    unfolding oc by (rule distribution_keys)
  have o4: "\<forall>(opening, count) \<in> set (sorted_by_count (opening_counts st)).
          count = int (length (filter (\<lambda>m. opening_name m = opening) all_moves)) \<and> 0 < count"
    unfolding oc using distribution_entries [where f = opening_name and ms = all_moves]
    by blast
  have t1: "sorted_wrt (\<lambda>c c'. c \<ge> c') (map snd (sorted_by_count (piece_type_counts st)))"
    by (rule sorted_by_count_descending)
  have t2: "distinct (map fst (sorted_by_count (piece_type_counts st)))"
    unfolding pc by (rule distribution_keys)
  have t3: "fst ` set (sorted_by_count (piece_type_counts st)) = piece_type ` set all_moves"
    unfolding pc by (rule distribution_keys)
  have t4: "\<forall>(piece, count) \<in> set (sorted_by_count (piece_type_counts st)).
          count = int (length (filter (\<lambda>m. piece_type m = piece) all_moves)) \<and> 0 < count"
    unfolding pc using distribution_entries [where f = piece_type and ms = all_moves]
    by blast
  have w: "high (weight_distribution st) = int (length (filter (\<lambda>m. 800 \<le> weight m) all_moves))
    \<and> medium (weight_distribution st)
        = int (length (filter (\<lambda>m. 500 \<le> weight m \<and> weight m < 800) all_moves))
    \<and> low (weight_distribution st) = int (length (filter (\<lambda>m. weight m < 500) all_moves))"
    unfolding st using weight_distribution_foldl [of initial_counts all_moves]
    by (simp add: initial_counts_def)
  have e: "map weight all_moves = [900, 600, 300]
         \<longrightarrow> high (weight_distribution st) = 1 \<and> medium (weight_distribution st) = 1
             \<and> low (weight_distribution st) = 1"
    using w weights_900_600_300 [of all_moves] by simp
  from w have w1: "high (weight_distribution st)
        = int (length (filter (\<lambda>m. 800 \<le> weight m) all_moves))"
    and w2: "medium (weight_distribution st)
        = int (length (filter (\<lambda>m. 500 \<le> weight m \<and> weight m < 800) all_moves))"
    and w3: "low (weight_distribution st) = int (length (filter (\<lambda>m. weight m < 500) all_moves))"
    by blast+
  show ?thesis
    using p1 p2 p3 o1 o2 o3 o4 t1 t2 t3 t4 w1 w2 w3 e by (intro conjI)
qed

text \<open>
  A catalog of two positions whose three moves have the weights 900, 600 and 300: the
  histogram is 1, 1, 1, and the report text shows it, with the two moves of Yagura ahead
  of the one of Aggressive Rook.
\<close>

theorem migration_report_statistics_witness:
  "(let catalog =
       [\<lparr>fen = ''lnsgkgsnl/1r5b1/ppppppppp/9/9/9/PPPPPPPPP/1B5R1/LNSGKGSNL b - 1'',
         moves =
          [\<lparr>from_row = 6, from_col = 1, to_row = 5, to_col = 1, piece_type = ''Rook'',
            is_drop = False, is_promotion = False, weight = 900, evaluation = 20,
            opening_name = ''Aggressive Rook'', move_notation = ''2g2f''\<rparr>,
           \<lparr>from_row = 6, from_col = 6, to_row = 5, to_col = 6, piece_type = ''Pawn'',
            is_drop = False, is_promotion = False, weight = 600, evaluation = 20,
            opening_name = ''Yagura'', move_notation = ''7g7f''\<rparr>]\<rparr>,
        \<lparr>fen = ''lnsgkgsnl/1r5b1/ppppppppp/9/9/7P1/PPPPPPP1P/1B5R1/LNSGKGSNL w - 2'',
         moves =
          [\<lparr>from_row = 2, from_col = 7, to_row = 3, to_col = 7, piece_type = ''Pawn'',
            is_drop = False, is_promotion = False, weight = 300, evaluation = 10,
            opening_name = ''Yagura'', move_notation = ''8c8d''\<rparr>]\<rparr>]
    in high (weight_distribution (count_positions catalog)) = 1
       \<and> medium (weight_distribution (count_positions catalog)) = 1
       \<and> low (weight_distribution (count_positions catalog)) = 1
       \<and> total_positions catalog = 2
       \<and> total_moves catalog = 3
       \<and> generate_migration_report catalog =
           ''=== Opening Book Migration Report ==='' @ [CHR 0x0A]
           @ ''Total Positions: 2'' @ [CHR 0x0A]
           @ ''Total Moves: 3'' @ [CHR 0x0A]
           @ [CHR 0x0A]
           @ ''Opening Distribution:'' @ [CHR 0x0A]
           @ ''  Yagura: 2 moves'' @ [CHR 0x0A]
           @ ''  Aggressive Rook: 1 moves'' @ [CHR 0x0A]
           @ [CHR 0x0A]
           @ ''Piece Type Distribution:'' @ [CHR 0x0A]
           @ ''  Pawn: 2 moves'' @ [CHR 0x0A]
           @ ''  Rook: 1 moves'' @ [CHR 0x0A]
           @ [CHR 0x0A]
           @ ''Weight Distribution:'' @ [CHR 0x0A]
           @ ''  High (800+): 1 moves'' @ [CHR 0x0A]
           @ ''  Medium (500-799): 1 moves'' @ [CHR 0x0A]
           @ ''  Low (<500): 1 moves'')"
  (is "let catalog = ?cat in ?high catalog \<and> ?medium catalog \<and> ?low catalog
         \<and> ?positions catalog \<and> ?moves catalog \<and> ?text catalog")
proof -
  note stats = migration_report_statistics [of ?cat]
  have weights: "map weight (concat (map moves ?cat)) = [900, 600, 300]"
    by simp
  from stats weights have histogram: "?high ?cat" "?medium ?cat" "?low ?cat"
    by blast+
  from stats have totals: "?positions ?cat" "?moves ?cat"
    by simp_all
  have "?text ?cat"
    by code_simp
  with histogram totals show ?thesis
    unfolding Let_def by (intro conjI)
qed

end
